theory Spec2Isabelle
  imports Complex_Main "HOL-Library.Monad_Syntax"
begin

section \<open>JavaScript values\<close>

text \<open>
  The library (\<^verbatim>\<open>src/index.js\<close>) passes JSON documents between its caller and the
  device and keeps its state in closure variables. Every value it touches is a JavaScript value,
  so the model has one type of values. A number is a finite (rational) value, \<open>NaN\<close> or
  an infinity: \<open>typeof\<close> calls all of them \<open>'number'\<close>. Signed zero is not
  distinguished. A string is the list of its UTF-16 code units, and a \<open>char\<close> is a code
  unit below 256: the model has the strings of ASCII and Latin-1 text, and no others.
\<close>

datatype number = Finite rat | NaN | PosInfinity | NegInfinity

datatype jsval =
    JUndefined
  | JNull
  | JBool bool
  | JNum number
  | JStr string
  | JArr "jsval list"
  | JObj "(string \<times> jsval) list"

text \<open>\<open>if (v)\<close>, \<open>!v\<close>, \<open>v || d\<close>, \<open>v && w\<close>: the values that count as true.\<close>

fun truthy :: "jsval \<Rightarrow> bool" where
  "truthy JUndefined = False"
| "truthy JNull = False"
| "truthy (JBool b) = b"
| "truthy (JNum n) = (n \<noteq> NaN \<and> n \<noteq> Finite 0)"
| "truthy (JStr s) = (s \<noteq> [])"
| "truthy (JArr xs) = True"
| "truthy (JObj kvs) = True"

text \<open>
  \<open>v.K\<close> for a member name \<open>K\<close> that no built-in prototype defines (every name
  \<^verbatim>\<open>index.js\<close> reads this way is an upper-case field of the device's JSON:
  \<open>STATUS\<close>, \<open>RESULT\<close>, \<open>ITEM\<close>, \<open>ITEMS\<close>, \<open>NAME\<close>, \<open>VALUE\<close>, \<open>CNAME\<close>,
  \<open>HASHVAL\<close>, \<open>PAIRING_REQ_TOKEN\<close>, \<open>AUTH_TOKEN\<close>). Reading a member of
  \<open>undefined\<close> or \<open>null\<close> throws a TypeError, which is the result \<open>None\<close>; a
  member an object does not have, and any such member of a string, number, boolean or
  array, is \<open>undefined\<close>.
\<close>

fun member_of :: "jsval \<Rightarrow> string \<Rightarrow> jsval option" where
  "member_of JUndefined k = None"
| "member_of JNull k = None"
| "member_of (JObj kvs) k = Some (case map_of kvs k of Some v \<Rightarrow> v | None \<Rightarrow> JUndefined)"
| "member_of v k = Some JUndefined"

text \<open>
  \<open>String.prototype.toLowerCase\<close> on these strings. Below 256 the letters that have a
  lower-case form are \<open>A\<close> to \<open>Z\<close> (65 to 90), U+00C0 to U+00D6 and U+00D8 to U+00DE;
  each maps to the code unit 32 above it, one for one, and every other code unit
  (U+00D7, U+00DF and U+00FF among them) is kept. \<open>upper_case\<close> lists the former and
  \<open>lower_case\<close>, position by position, what they map to.
\<close>

definition upper_case :: string where
  "upper_case =
     ''ABCDEFGHIJKLMNOPQRSTUVWXYZ'' @
       [CHR 0xC0, CHR 0xC1, CHR 0xC2, CHR 0xC3, CHR 0xC4, CHR 0xC5, CHR 0xC6, CHR 0xC7,
        CHR 0xC8, CHR 0xC9, CHR 0xCA, CHR 0xCB, CHR 0xCC, CHR 0xCD, CHR 0xCE, CHR 0xCF,
        CHR 0xD0, CHR 0xD1, CHR 0xD2, CHR 0xD3, CHR 0xD4, CHR 0xD5, CHR 0xD6, CHR 0xD8,
        CHR 0xD9, CHR 0xDA, CHR 0xDB, CHR 0xDC, CHR 0xDD, CHR 0xDE]"

definition lower_case :: string where
  "lower_case =
     ''abcdefghijklmnopqrstuvwxyz'' @
       [CHR 0xE0, CHR 0xE1, CHR 0xE2, CHR 0xE3, CHR 0xE4, CHR 0xE5, CHR 0xE6, CHR 0xE7,
        CHR 0xE8, CHR 0xE9, CHR 0xEA, CHR 0xEB, CHR 0xEC, CHR 0xED, CHR 0xEE, CHR 0xEF,
        CHR 0xF0, CHR 0xF1, CHR 0xF2, CHR 0xF3, CHR 0xF4, CHR 0xF5, CHR 0xF6, CHR 0xF8,
        CHR 0xF9, CHR 0xFA, CHR 0xFB, CHR 0xFC, CHR 0xFD, CHR 0xFE]"

definition lower_char :: "char \<Rightarrow> char" where
  "lower_char c = (case map_of (zip upper_case lower_case) c of Some d \<Rightarrow> d | None \<Rightarrow> c)"

definition lower :: "string \<Rightarrow> string" where
  "lower s = map lower_char s"

text \<open>\<open>v.toLowerCase()\<close>: only a string has the method; calling it on anything else
  throws a TypeError.\<close>

fun toLowerCase :: "jsval \<Rightarrow> string option" where
  "toLowerCase (JStr s) = Some (lower s)"
| "toLowerCase v = None"

text \<open>The decimal text of a non-negative integer, as \<open>'' + n\<close> produces it.\<close>

definition digit :: "nat \<Rightarrow> char" where
  "digit d = ''0123456789'' ! d"

function show_nat :: "nat \<Rightarrow> string" where
  "show_nat n = (if n < 10 then [digit n] else show_nat (n div 10) @ [digit (n mod 10)])"
  by pat_completeness auto
termination
  by (relation "measure id") auto

declare show_nat.simps [simp del]

section \<open>The transport\<close>

text \<open>
  \<open>request[method](req)\<close> of \<^verbatim>\<open>request-promise-native\<close> is outside the repository.
  It is a parameter of every operation: a function from the request the library builds to
  the way its promise settles, fulfilled with the parsed JSON body or rejected with the
  transport's error (a network error, or a status other than 2xx with the response). The
  transport is taken to settle every request.
\<close>

datatype verb = GET | PUT

record request =
  verb :: verb
  url :: string
  json :: bool
  rejectUnauthorized :: bool
  body :: jsval
  headers :: "(string \<times> jsval) list option"

datatype failure = RequestError string | StatusCodeError nat jsval

datatype reply = Fulfilled jsval | Failed failure

type_synonym transport = "request \<Rightarrow> reply"

text \<open>
  How a promise handed to the caller ends: resolved with a value, rejected with a reason,
  or never settled. A reason is a value passed to \<open>reject\<close>, the transport's error, or
  the TypeError a callback threw.
\<close>

datatype reason = TypeError | Val jsval | TransportError failure

datatype outcome = Resolved jsval | Rejected reason | Pending

text \<open>\<open>resolve\<close> and \<open>reject\<close> of \<open>new Promise\<close>: the first call settles the
  promise, a later one does nothing; an exception thrown by the executor is a call of
  \<open>reject\<close>.\<close>

definition settle :: "outcome \<Rightarrow> outcome \<Rightarrow> outcome" where
  "settle p q = (if p = Pending then q else p)"

text \<open>
  \<open>sendRequest(method, url, authKey, data)\<close>, lines 7 to 22. \<open>request_options\<close> is
  the object \<open>req\<close> it builds, whose \<open>headers\<close> member exists only when \<open>authKey\<close> is
  truthy; \<open>sendRequest\<close> hands it to the transport and returns the transport's promise
  (here with the request, to record what was sent).
\<close>

definition request_options :: "verb \<Rightarrow> string \<Rightarrow> jsval \<Rightarrow> jsval \<Rightarrow> request" where
  "request_options m u authKey data =
     \<lparr>verb = m, url = u, json = True, rejectUnauthorized = False, body = data,
      headers = (if truthy authKey then Some [(''AUTH'', authKey)] else None)\<rparr>"

definition sendRequest :: "transport \<Rightarrow> verb \<Rightarrow> string \<Rightarrow> jsval \<Rightarrow> jsval \<Rightarrow> request \<times> reply" where
  "sendRequest dev m u authKey data =
     (let req = request_options m u authKey data in (req, dev req))"

fun promise_of :: "reply \<Rightarrow> outcome" where
  "promise_of (Fulfilled v) = Resolved v"
| "promise_of (Failed e) = Rejected (TransportError e)"

section \<open>Key commands\<close>

definition keyData :: "jsval \<Rightarrow> jsval \<Rightarrow> jsval \<Rightarrow> jsval" where
  "keyData codeset code action =
     (let action' = (if \<not> truthy action then JStr ''KEYPRESS'' else action)
      in JObj [(''KEYLIST'',
                JArr [JObj [(''CODESET'', codeset), (''CODE'', code), (''ACTION'', action')]])])"

section \<open>The session\<close>

text \<open>The closure variables of \<open>SMARTCAST\<close>: \<open>host\<close>, \<open>_pairingRequestToken\<close>,
  \<open>_authKey\<close>, \<open>_deviceId\<close> and \<open>_deviceName\<close>.\<close>

record session =
  host :: string
  pairingRequestToken :: jsval
  authKey :: jsval
  deviceId :: jsval
  deviceName :: jsval

definition PROTO :: string where
  "PROTO = ''https://''"

definition PORT :: nat where
  "PORT = 9000"

definition SMARTCAST :: "string \<Rightarrow> jsval \<Rightarrow> session" where
  "SMARTCAST ip key =
     \<lparr>host = PROTO @ (if CHR '':'' \<notin> set ip then ip @ '':'' @ show_nat PORT else ip),
      pairingRequestToken = JStr [],
      authKey = (if truthy key then key else JStr []),
      deviceId = JStr [],
      deviceName = JStr []\<rparr>"

text \<open>\<open>control.keyCommand\<close>: one \<open>PUT\<close> of the key list; the promise is the
  transport's.\<close>

definition keyCommand :: "session \<Rightarrow> transport \<Rightarrow> jsval \<Rightarrow> jsval \<Rightarrow> jsval \<Rightarrow> request list \<times> outcome" where
  "keyCommand s dev codeset code action =
     (let data = keyData codeset code action;
          (req, rep) = sendRequest dev PUT (host s @ ''/key_command/'') (authKey s) data
      in ([req], promise_of rep))"

section \<open>Power and pairing\<close>

text \<open>\<open>power.currentMode\<close> calls \<open>sendRequest('get', url)\<close>: the third and the fourth
  argument are left out, so both are \<open>undefined\<close>.\<close>

definition currentMode :: "session \<Rightarrow> transport \<Rightarrow> request list \<times> outcome" where
  "currentMode s dev =
     (let u = host s @ ''/state/device/power_mode'';
          (req, rep) = sendRequest dev GET u JUndefined JUndefined
      in ([req], promise_of rep))"

text \<open>\<open>data.STATUS.RESULT\<close>, which throws when \<open>data\<close> or \<open>data.STATUS\<close> is
  \<open>undefined\<close> or \<open>null\<close>.\<close>

definition status_result :: "jsval \<Rightarrow> jsval option" where
  "status_result data = member_of data ''STATUS'' \<bind> (\<lambda>st. member_of st ''RESULT'')"

text \<open>\<open>data && data.STATUS && data.STATUS.RESULT === 'SUCCESS'\<close>, left to right: a
  member is read only of a truthy value, so nothing throws here.\<close>

definition initiate_succeeded :: "jsval \<Rightarrow> bool" where
  "initiate_succeeded data =
     (truthy data \<and>
      (case member_of data ''STATUS'' of
         None \<Rightarrow> False
       | Some st \<Rightarrow> truthy st \<and>
           (case member_of st ''RESULT'' of None \<Rightarrow> False | Some r \<Rightarrow> r = JStr ''SUCCESS'')))"

definition BLOCKED_MESSAGE :: string where
  "BLOCKED_MESSAGE = ''Failed to initiate the pairing process because a pairing request has already been initiated. Please wait for the pin to clear from the screen before initiating the pairing process again.''"

text \<open>
  \<open>pairing.initiate(deviceName, deviceId)\<close>. \<open>t1\<close> and \<open>t2\<close> are what the two
  \<open>new Date().getTime()\<close> read (milliseconds, a non-negative integer), and
  \<open>or_default given t\<close> is \<open>given || 'node-app-' + t\<close>. The two
  assignments to \<open>_deviceName\<close> and \<open>_deviceId\<close> come first, so every result carries
  them. An exception inside the \<open>then\<close> callback rejects the returned promise with it,
  and an assignment it interrupts has not happened.
\<close>

definition or_default :: "jsval \<Rightarrow> nat \<Rightarrow> jsval" where
  "or_default given t = (if truthy given then given else JStr (''node-app-'' @ show_nat t))"

definition initiate :: "session \<Rightarrow> transport \<Rightarrow> nat \<Rightarrow> nat \<Rightarrow> jsval \<Rightarrow> jsval \<Rightarrow> request list \<times> outcome \<times> session" where
  "initiate s dev t1 t2 name ident =
     (let s1 = s\<lparr>deviceName := or_default name t1, deviceId := or_default ident t2\<rparr>;
          data = JObj [(''DEVICE_NAME'', deviceName s1), (''DEVICE_ID'', deviceId s1)];
          (req, rep) = sendRequest dev PUT (host s @ ''/pairing/start'') JNull data
      in case rep of
           Failed e \<Rightarrow> ([req], Rejected (TransportError e), s1)
         | Fulfilled data \<Rightarrow>
             if initiate_succeeded data then
               (case member_of data ''ITEM'' \<bind> (\<lambda>item. member_of item ''PAIRING_REQ_TOKEN'') of
                  None \<Rightarrow> ([req], Rejected TypeError, s1)
                | Some tok \<Rightarrow> ([req], Resolved data, s1\<lparr>pairingRequestToken := tok\<rparr>))
             else
               (case status_result data of
                  None \<Rightarrow> ([req], Rejected TypeError, s1)
                | Some r \<Rightarrow>
                    if r = JStr ''BLOCKED'' then ([req], Rejected (Val (JStr BLOCKED_MESSAGE)), s1)
                    else ([req], Rejected (Val data), s1)))"

text \<open>\<open>pairing.pair(pin)\<close>. Its test is \<open>data && data.STATUS.RESULT === 'SUCCESS'\<close>: a
  falsy \<open>data\<close> goes to \<open>Promise.reject(data)\<close>, a truthy one without \<open>STATUS\<close>
  throws.\<close>

definition pair :: "session \<Rightarrow> transport \<Rightarrow> jsval \<Rightarrow> request list \<times> outcome \<times> session" where
  "pair s dev pin =
     (let data = JObj [(''DEVICE_ID'', deviceId s), (''CHALLENGE_TYPE'', JNum (Finite 1)),
                       (''RESPONSE_VALUE'', pin), (''PAIRING_REQ_TOKEN'', pairingRequestToken s)];
          (req, rep) = sendRequest dev PUT (host s @ ''/pairing/pair'') JNull data
      in case rep of
           Failed e \<Rightarrow> ([req], Rejected (TransportError e), s)
         | Fulfilled data \<Rightarrow>
             if \<not> truthy data then ([req], Rejected (Val data), s)
             else
               (case status_result data of
                  None \<Rightarrow> ([req], Rejected TypeError, s)
                | Some r \<Rightarrow>
                    if r = JStr ''SUCCESS'' then
                      (case member_of data ''ITEM'' \<bind> (\<lambda>item. member_of item ''AUTH_TOKEN'') of
                         None \<Rightarrow> ([req], Rejected TypeError, s)
                       | Some tok \<Rightarrow> ([req], Resolved data, s\<lparr>authKey := tok\<rparr>))
                    else ([req], Rejected (Val data), s)))"

definition useAuthToken :: "session \<Rightarrow> jsval \<Rightarrow> session" where
  "useAuthToken s key = s\<lparr>authKey := key\<rparr>"

section \<open>Numbers and array-like values\<close>

text \<open>
  ECMAScript's \<open>ToNumber\<close>. On a string, an array or an object it parses text
  (\<open>StringToNumber\<close> after \<open>ToPrimitive\<close>) and rounds to a double; that part is the
  parameter \<open>conv\<close>, and every theorem below holds for every \<open>conv\<close>.
\<close>

type_synonym coercion = "jsval \<Rightarrow> number"

fun ToNumber :: "coercion \<Rightarrow> jsval \<Rightarrow> number" where
  "ToNumber conv (JNum n) = n"
| "ToNumber conv JUndefined = NaN"
| "ToNumber conv JNull = Finite 0"
| "ToNumber conv (JBool b) = Finite (if b then 1 else 0)"
| "ToNumber conv v = conv v"

text \<open>\<open>typeof v === 'number'\<close>.\<close>

fun is_number :: "jsval \<Rightarrow> bool" where
  "is_number (JNum n) = True"
| "is_number v = False"

text \<open>\<open>a < b\<close> on numbers: false as soon as one side is \<open>NaN\<close>.\<close>

fun less_number :: "number \<Rightarrow> number \<Rightarrow> bool" where
  "less_number NaN b = False"
| "less_number a NaN = False"
| "less_number (Finite x) (Finite y) = (x < y)"
| "less_number (Finite x) PosInfinity = True"
| "less_number (Finite x) NegInfinity = False"
| "less_number NegInfinity (Finite y) = True"
| "less_number NegInfinity PosInfinity = True"
| "less_number NegInfinity NegInfinity = False"
| "less_number PosInfinity b = False"

text \<open>\<open>Math.round\<close>: the nearest integer, a tie going up; \<open>NaN\<close> and the infinities
  are kept.\<close>

fun Math_round :: "number \<Rightarrow> number" where
  "Math_round (Finite x) = Finite (of_int \<lfloor>x + 1 / 2\<rfloor>)"
| "Math_round n = n"

text \<open>
  The values \<open>v[0]\<close>, \<open>v[1]\<close>, ... that a loop \<open>for (i = 0; i < v.length; i++)\<close>
  reaches, in order; \<open>None\<close> when reading \<open>v.length\<close> throws. An array gives its
  elements and a string its characters. A number or a boolean has no \<open>length\<close>, and
  \<open>0 < undefined\<close> is false. An object gives its members \<open>'0'\<close>, \<open>'1'\<close>, ... while
  the index is below its \<open>length\<close> member; a member it lacks is \<open>undefined\<close>, on which
  both loops of \<open>findInputByName\<close> throw, and an object with \<open>n\<close> members lacks one of
  the first \<open>n + 1\<close> indices, so the indices past them are never reached.
\<close>

fun elements :: "coercion \<Rightarrow> jsval \<Rightarrow> jsval list option" where
  "elements conv JUndefined = None"
| "elements conv JNull = None"
| "elements conv (JArr xs) = Some xs"
| "elements conv (JStr s) = Some (map (\<lambda>c. JStr [c]) s)"
| "elements conv (JObj kvs) =
     (let len = ToNumber conv (case map_of kvs ''length'' of Some v \<Rightarrow> v | None \<Rightarrow> JUndefined)
      in Some (map (\<lambda>i. case map_of kvs (show_nat i) of Some v \<Rightarrow> v | None \<Rightarrow> JUndefined)
                 (takeWhile (\<lambda>i. less_number (Finite (of_nat i)) len) [0..<Suc (length kvs)])))"
| "elements conv v = Some []"

text \<open>\<open>v[0]\<close>.\<close>

fun first_element :: "jsval \<Rightarrow> jsval option" where
  "first_element JUndefined = None"
| "first_element JNull = None"
| "first_element (JArr xs) = Some (case xs of [] \<Rightarrow> JUndefined | x # rest \<Rightarrow> x)"
| "first_element (JStr s) = Some (case s of [] \<Rightarrow> JUndefined | c # rest \<Rightarrow> JStr [c])"
| "first_element (JObj kvs) = Some (case map_of kvs ''0'' of Some v \<Rightarrow> v | None \<Rightarrow> JUndefined)"
| "first_element v = Some JUndefined"

section \<open>Inputs\<close>

text \<open>How one of the two loops of \<open>findInputByName\<close> ends: it throws a TypeError, it
  returns a value, or it runs to its end.\<close>

datatype scan = Throws | Returns jsval | Exhausted

text \<open>The first loop: \<open>list.ITEMS[i].NAME.toLowerCase() === name.toLowerCase()\<close>, and
  \<open>return list.ITEMS[i].NAME\<close>.\<close>

fun by_internal_name :: "string \<Rightarrow> jsval list \<Rightarrow> scan" where
  "by_internal_name name [] = Exhausted"
| "by_internal_name name (item # rest) =
     (case member_of item ''NAME'' of
        None \<Rightarrow> Throws
      | Some n \<Rightarrow>
          (case toLowerCase n of
             None \<Rightarrow> Throws
           | Some l \<Rightarrow> if l = lower name then Returns n else by_internal_name name rest))"

text \<open>The second loop: \<open>list.ITEMS[i].VALUE.NAME.toLowerCase() === name.toLowerCase()\<close>,
  and again \<open>return list.ITEMS[i].NAME\<close>.\<close>

fun by_user_name :: "string \<Rightarrow> jsval list \<Rightarrow> scan" where
  "by_user_name name [] = Exhausted"
| "by_user_name name (item # rest) =
     (case member_of item ''VALUE'' \<bind> (\<lambda>v. member_of v ''NAME'') of
        None \<Rightarrow> Throws
      | Some d \<Rightarrow>
          (case toLowerCase d of
             None \<Rightarrow> Throws
           | Some l \<Rightarrow>
               if l = lower name then
                 (case member_of item ''NAME'' of None \<Rightarrow> Throws | Some n \<Rightarrow> Returns n)
               else by_user_name name rest))"

text \<open>\<open>findInputByName(name, list)\<close>: \<open>None\<close> is a TypeError, \<open>Some JNull\<close> the
  final \<open>return null\<close>.\<close>

definition findInputByName :: "coercion \<Rightarrow> string \<Rightarrow> jsval \<Rightarrow> jsval option" where
  "findInputByName conv name list =
     (case member_of list ''ITEMS'' \<bind> elements conv of
        None \<Rightarrow> None
      | Some items \<Rightarrow>
          (case by_internal_name name items of
             Throws \<Rightarrow> None
           | Returns n \<Rightarrow> Some n
           | Exhausted \<Rightarrow>
               (case by_user_name name items of
                  Throws \<Rightarrow> None
                | Returns n \<Rightarrow> Some n
                | Exhausted \<Rightarrow> Some JNull)))"

definition input_list :: "session \<Rightarrow> transport \<Rightarrow> request list \<times> outcome" where
  "input_list s dev =
     (let (req, rep) = sendRequest dev GET (host s @ ''/menu_native/dynamic/audio_settings/input'')
                         (authKey s) JUndefined
      in ([req], promise_of rep))"

definition input_current :: "session \<Rightarrow> transport \<Rightarrow> request list \<times> outcome" where
  "input_current s dev =
     (let (req, rep) = sendRequest dev GET
                         (host s @ ''/menu_native/dynamic/audio_settings/input/current_input'')
                         (authKey s) JUndefined
      in ([req], promise_of rep))"

text \<open>\<open>inputList.STATUS.RESULT !== 'SUCCESS' || currentInput.STATUS.RESULT !== 'SUCCESS'\<close>:
  the right side is read only when the left one is false; \<open>None\<close> when a read throws.\<close>

definition not_success :: "jsval \<Rightarrow> jsval \<Rightarrow> bool option" where
  "not_success inputList currentInput =
     (case status_result inputList of
        None \<Rightarrow> None
      | Some r1 \<Rightarrow>
          if r1 \<noteq> JStr ''SUCCESS'' then Some True
          else (case status_result currentInput of
                  None \<Rightarrow> None
                | Some r2 \<Rightarrow> Some (r2 \<noteq> JStr ''SUCCESS'')))"

text \<open>
  The callback \<open>input.set\<close> gives to \<open>Promise.all(...).then\<close>, with the two responses:
  the requests it sends and how the promise of \<open>input.set\<close> settles. An exception in
  the callback rejects the promise \<open>then\<close> returns, and \<open>.catch(reject)\<close> passes it on.
\<close>

definition input_set_then :: "coercion \<Rightarrow> session \<Rightarrow> transport \<Rightarrow> string \<Rightarrow> jsval \<Rightarrow> jsval \<Rightarrow> request list \<times> outcome" where
  "input_set_then conv s dev name inputList currentInput =
     (case findInputByName conv name inputList of
        None \<Rightarrow> ([], Rejected TypeError)
      | Some inputName \<Rightarrow>
          (case not_success inputList currentInput of
             None \<Rightarrow> ([], Rejected TypeError)
           | Some True \<Rightarrow>
               ([], Rejected (Val (JObj [(''list'', inputList), (''current'', currentInput)])))
           | Some False \<Rightarrow>
               if \<not> truthy inputName then
                 ([], Rejected (Val (JStr (''Input: '' @ name @ '' not found''))))
               else
                 (case member_of currentInput ''ITEMS'' \<bind> first_element
                         \<bind> (\<lambda>item. member_of item ''HASHVAL'') of
                    None \<Rightarrow> ([], Rejected TypeError)
                  | Some h \<Rightarrow>
                      (let data = JObj [(''REQUEST'', JStr ''MODIFY''), (''VALUE'', inputName),
                                        (''HASHVAL'', h)];
                           (req, rep) = sendRequest dev PUT
                              (host s @ ''/menu_native/dynamic/audio_settings/input/current_input'')
                              (authKey s) data
                       in ([req], promise_of rep)))))"

text \<open>
  \<open>input.set(name)\<close>. Both reads are sent, the list first. \<open>Promise.all\<close> rejects with
  the rejection it sees first: when both reads fail, \<open>list_first\<close> says whether that is
  the list's.
\<close>

definition input_set :: "coercion \<Rightarrow> session \<Rightarrow> transport \<Rightarrow> bool \<Rightarrow> string \<Rightarrow> request list \<times> outcome" where
  "input_set conv s dev list_first name =
     (let (req1, rep1) = sendRequest dev GET (host s @ ''/menu_native/dynamic/audio_settings/input'')
                           (authKey s) JUndefined;
          (req2, rep2) = sendRequest dev GET
                           (host s @ ''/menu_native/dynamic/audio_settings/input/current_input'')
                           (authKey s) JUndefined
      in case rep1 of
           Failed e1 \<Rightarrow>
             (case rep2 of
                Failed e2 \<Rightarrow>
                  ([req1, req2], Rejected (TransportError (if list_first then e1 else e2)))
              | Fulfilled currentInput \<Rightarrow> ([req1, req2], Rejected (TransportError e1)))
         | Fulfilled inputList \<Rightarrow>
             (case rep2 of
                Failed e2 \<Rightarrow> ([req1, req2], Rejected (TransportError e2))
              | Fulfilled currentInput \<Rightarrow>
                  (let (sent, p) = input_set_then conv s dev name inputList currentInput
                   in ([req1, req2] @ sent, p))))"

section \<open>Volume\<close>

text \<open>\<open>control.volume.get\<close> and \<open>control.volume.getMuteState\<close> wrap the request in
  \<open>new Promise((resolve) => { sendRequest(...).then(resolve) })\<close>: nothing handles a
  rejection of the request, so the promise they return is then never settled.\<close>

definition volume_get :: "session \<Rightarrow> transport \<Rightarrow> request list \<times> outcome" where
  "volume_get s dev =
     (let (req, rep) = sendRequest dev GET
                         (host s @ ''/menu_native/dynamic/audio_settings/audio/volume'')
                         (authKey s) JUndefined
      in ([req], case rep of Fulfilled v \<Rightarrow> settle Pending (Resolved v) | Failed e \<Rightarrow> Pending))"

definition getMuteState :: "session \<Rightarrow> transport \<Rightarrow> request list \<times> outcome" where
  "getMuteState s dev =
     (let (req, rep) = sendRequest dev GET
                         (host s @ ''/menu_native/dynamic/tv_settings/audio/mute'')
                         (authKey s) JUndefined
      in ([req], case rep of Fulfilled v \<Rightarrow> settle Pending (Resolved v) | Failed e \<Rightarrow> Pending))"

text \<open>
  \<open>control.volume.set\<close> calls \<open>this.settings.audio.get()\<close>. What that expression does is
  a parameter of the function's body: \<open>None\<close> when evaluating it throws a TypeError (a
  link of the chain is \<open>undefined\<close>), and otherwise the requests the call sends
  together with the way the promise it returns settles.
\<close>

type_synonym getter = "request list \<times> outcome"

text \<open>\<open>settings.ITEMS.find(i => i.CNAME === 'volume')\<close>: only an array has \<open>find\<close>;
  \<open>None\<close> is a TypeError, \<open>Some JUndefined\<close> no match.\<close>

fun find_volume :: "jsval list \<Rightarrow> jsval option" where
  "find_volume [] = Some JUndefined"
| "find_volume (i # rest) =
     (case member_of i ''CNAME'' of
        None \<Rightarrow> None
      | Some c \<Rightarrow> if c = JStr ''volume'' then Some i else find_volume rest)"

fun array_find_volume :: "jsval \<Rightarrow> jsval option" where
  "array_find_volume (JArr xs) = find_volume xs"
| "array_find_volume v = None"

definition NOT_A_NUMBER :: string where
  "NOT_A_NUMBER = ''value must be a number''"

definition OUT_OF_RANGE :: string where
  "OUT_OF_RANGE = ''value is out of range, please enter a number between 0 to 100 inclusive''"

text \<open>
  The body of \<open>control.volume.set(value)\<close>, lines 201 to 224. \<open>p1\<close> and \<open>p2\<close> are the
  promise after each of the two checks: neither check returns, so the executor goes on
  to \<open>this.settings.audio.get()\<close> whatever they found, and what comes later can settle
  the promise only if it is still pending.
\<close>

definition volume_set_body :: "getter option \<Rightarrow> coercion \<Rightarrow> session \<Rightarrow> transport \<Rightarrow> jsval \<Rightarrow> request list \<times> outcome" where
  "volume_set_body this_settings_audio_get conv s dev v =
     (let p1 = (if \<not> is_number v then settle Pending (Rejected (Val (JStr NOT_A_NUMBER)))
                else Pending);
          p2 = (if less_number (ToNumber conv v) (Finite 0) \<or> less_number (Finite 100) (ToNumber conv v)
                then settle p1 (Rejected (Val (JStr OUT_OF_RANGE))) else p1)
      in case this_settings_audio_get of
           None \<Rightarrow> ([], settle p2 (Rejected TypeError))
         | Some (sent, got) \<Rightarrow>
             (case got of
                Pending \<Rightarrow> (sent, p2)
              | Rejected r \<Rightarrow> (sent, settle p2 (Rejected r))
              | Resolved settings \<Rightarrow>
                  (case member_of settings ''ITEMS'' \<bind> array_find_volume of
                     None \<Rightarrow> (sent, settle p2 (Rejected TypeError))
                   | Some volume \<Rightarrow>
                       if \<not> truthy volume then
                         (sent, settle p2 (Rejected (Val (JStr ''no volume setting found''))))
                       else
                         (case member_of volume ''HASHVAL'' of
                            None \<Rightarrow> (sent, settle p2 (Rejected TypeError))
                          | Some h \<Rightarrow>
                              (let data = JObj [(''REQUEST'', JStr ''MODIFY''), (''HASHVAL'', h),
                                                (''VALUE'', JNum (Math_round (ToNumber conv v)))];
                                   (req, rep) = sendRequest dev PUT
                                      (host s @ ''/menu_native/dynamic/tv_settings/audio/volume'')
                                      (authKey s) data
                               in (sent @ [req], settle p2 (promise_of rep)))))))"

text \<open>
  The constructor assigns \<open>this.power\<close>, \<open>this.pairing\<close>, \<open>this.input\<close> and
  \<open>this.control\<close>, and nothing else in \<^verbatim>\<open>index.js\<close> or in its type declarations gives
  the object a \<open>settings\<close> member. On the object \<open>new SMARTCAST(...)\<close> returns,
  \<open>this.settings\<close> is \<open>undefined\<close> and \<open>this.settings.audio\<close> throws.
\<close>

definition this_settings_audio_get :: "getter option" where
  "this_settings_audio_get = None"

definition volume_set :: "coercion \<Rightarrow> session \<Rightarrow> transport \<Rightarrow> jsval \<Rightarrow> request list \<times> outcome" where
  "volume_set conv s dev v = volume_set_body this_settings_audio_get conv s dev v"

section \<open>The operations of a session\<close>

text \<open>
  Every method of the object that calls \<open>sendRequest\<close>, with its arguments
  (\<open>pairing.useAuthToken\<close> only stores its argument, and \<open>pairing.cancel\<close> only
  throws). For \<open>pairing.initiate\<close> the two clock readings come first, and for
  \<open>input.set\<close> the order in which two failed reads are seen. The key commands
  are the fixed pairs of codeset and code of lines 190 to 283, each calling
  \<open>keyCommand\<close> with no action.
\<close>

datatype operation =
    CurrentMode
  | Initiate nat nat jsval jsval
  | Pair jsval
  | InputList
  | InputCurrent
  | InputSet bool string
  | KeyCommand jsval jsval jsval
  | VolumeDown | VolumeUp | VolumeGet | VolumeSet jsval | GetMuteState
  | Unmute | Mute | ToggleMute
  | InputCycle
  | PowerOff | PowerOn | PowerToggle
  | SeekForward | SeekBack | Play | Pause | CC
  | Menu | Info | Smartcast

definition key :: "session \<Rightarrow> transport \<Rightarrow> nat \<Rightarrow> nat \<Rightarrow> request list \<times> outcome" where
  "key s dev codeset code =
     keyCommand s dev (JNum (Finite (of_nat codeset))) (JNum (Finite (of_nat code))) JUndefined"

fun perform :: "coercion \<Rightarrow> session \<Rightarrow> transport \<Rightarrow> operation \<Rightarrow> request list \<times> outcome" where
  "perform conv s dev CurrentMode = currentMode s dev"
| "perform conv s dev (Initiate t1 t2 name ident) =
     (case initiate s dev t1 t2 name ident of (sent, p, s') \<Rightarrow> (sent, p))"
| "perform conv s dev (Pair pin) = (case pair s dev pin of (sent, p, s') \<Rightarrow> (sent, p))"
| "perform conv s dev InputList = input_list s dev"
| "perform conv s dev InputCurrent = input_current s dev"
| "perform conv s dev (InputSet list_first name) = input_set conv s dev list_first name"
| "perform conv s dev (KeyCommand codeset code action) = keyCommand s dev codeset code action"
| "perform conv s dev VolumeDown = key s dev 5 0"
| "perform conv s dev VolumeUp = key s dev 5 1"
| "perform conv s dev VolumeGet = volume_get s dev"
| "perform conv s dev (VolumeSet v) = volume_set conv s dev v"
| "perform conv s dev GetMuteState = getMuteState s dev"
| "perform conv s dev Unmute = key s dev 5 2"
| "perform conv s dev Mute = key s dev 5 3"
| "perform conv s dev ToggleMute = key s dev 5 4"
| "perform conv s dev InputCycle = key s dev 7 1"
| "perform conv s dev PowerOff = key s dev 11 0"
| "perform conv s dev PowerOn = key s dev 11 1"
| "perform conv s dev PowerToggle = key s dev 11 2"
| "perform conv s dev SeekForward = key s dev 2 0"
| "perform conv s dev SeekBack = key s dev 2 1"
| "perform conv s dev Play = key s dev 2 3"
| "perform conv s dev Pause = key s dev 2 2"
| "perform conv s dev CC = key s dev 4 4"
| "perform conv s dev Menu = key s dev 4 8"
| "perform conv s dev Info = key s dev 4 6"
| "perform conv s dev Smartcast = key s dev 4 3"

text \<open>The three operations whose call of \<open>sendRequest\<close> passes no key: \<open>null\<close> in
  the two pairing calls, nothing in \<open>power.currentMode\<close>.\<close>

fun sends_no_key :: "operation \<Rightarrow> bool" where
  "sends_no_key CurrentMode = True"
| "sends_no_key (Initiate t1 t2 name ident) = True"
| "sends_no_key (Pair pin) = True"
| "sends_no_key op = False"

text \<open>The paths the library appends to \<open>host\<close>.\<close>

definition endpoints :: "string list" where
  "endpoints =
     [''/state/device/power_mode'', ''/pairing/start'', ''/pairing/pair'',
      ''/menu_native/dynamic/audio_settings/input'',
      ''/menu_native/dynamic/audio_settings/input/current_input'',
      ''/key_command/'',
      ''/menu_native/dynamic/audio_settings/audio/volume'',
      ''/menu_native/dynamic/tv_settings/audio/volume'',
      ''/menu_native/dynamic/tv_settings/audio/mute'']"

section \<open>Resolving an input name, in the words of the specification\<close>

text \<open>
  The internal name of an item is its \<open>NAME\<close> and its display name its \<open>VALUE.NAME\<close>,
  when they are strings. The specification resolves a requested name by comparing it
  without regard to case with the internal names, then with the display names: the first
  item matched by internal name wins, and only when there is none the first one matched by
  display name; the answer is the internal name of the item found.
\<close>

definition internal_name :: "jsval \<Rightarrow> string option" where
  "internal_name item = (case member_of item ''NAME'' of Some (JStr n) \<Rightarrow> Some n | _ \<Rightarrow> None)"

definition display_name :: "jsval \<Rightarrow> string option" where
  "display_name item =
     (case member_of item ''VALUE'' \<bind> (\<lambda>v. member_of v ''NAME'') of
        Some (JStr d) \<Rightarrow> Some d
      | _ \<Rightarrow> None)"

definition resolve_name_spec :: "string \<Rightarrow> jsval list \<Rightarrow> string option" where
  "resolve_name_spec name items =
     (case find (\<lambda>item. map_option lower (internal_name item) = Some (lower name)) items of
        Some item \<Rightarrow> internal_name item
      | None \<Rightarrow>
          (case find (\<lambda>item. map_option lower (display_name item) = Some (lower name)) items of
             Some item \<Rightarrow> internal_name item
           | None \<Rightarrow> None))"

section \<open>Devices and documents for the examples\<close>

text \<open>A device that answers by verb and path, and fails with status 404 elsewhere; one
  that answers every request with the same document; one whose every request fails.\<close>

definition by_path :: "session \<Rightarrow> ((verb \<times> string) \<times> jsval) list \<Rightarrow> transport" where
  "by_path s table =
     (\<lambda>req. case map_of table (verb req, drop (length (host s)) (url req)) of
              Some data \<Rightarrow> Fulfilled data
            | None \<Rightarrow> Failed (StatusCodeError 404 JNull))"

definition answering :: "jsval \<Rightarrow> transport" where
  "answering data = (\<lambda>req. Fulfilled data)"

definition failing :: "failure \<Rightarrow> transport" where
  "failing e = (\<lambda>req. Failed e)"

text \<open>The session of the examples, and a device that answers the two reads of
  \<open>input.set\<close> with a list and with \<open>current_doc\<close>.\<close>

definition tv :: session where
  "tv = SMARTCAST ''tv'' (JStr ''key'')"

text \<open>A coercion for the examples; none of them reaches it.\<close>

definition no_coercion :: coercion where
  "no_coercion = (\<lambda>v. NaN)"

definition inputs_doc :: jsval where
  "inputs_doc =
     JObj [(''STATUS'', JObj [(''RESULT'', JStr ''SUCCESS'')]),
           (''ITEMS'',
            JArr [JObj [(''HASHVAL'', JNum (Finite 11)), (''NAME'', JStr ''bt''),
                        (''VALUE'', JObj [(''NAME'', JStr ''Bluetooth'')])],
                  JObj [(''HASHVAL'', JNum (Finite 12)), (''NAME'', JStr ''hdmi1''),
                        (''VALUE'', JObj [(''NAME'', JStr ''HDMI-1'')])]])]"

definition aux_doc :: jsval where
  "aux_doc =
     JObj [(''STATUS'', JObj [(''RESULT'', JStr ''SUCCESS'')]),
           (''ITEMS'',
            JArr [JObj [(''NAME'', JStr ''hdmi2''), (''VALUE'', JObj [(''NAME'', JStr ''Aux'')])],
                  JObj [(''NAME'', JStr ''AUX''), (''VALUE'', JObj [(''NAME'', JStr ''Line in'')])]])]"

definition ecran_doc :: jsval where
  "ecran_doc =
     JObj [(''STATUS'', JObj [(''RESULT'', JStr ''SUCCESS'')]),
           (''ITEMS'',
            JArr [JObj [(''NAME'', JStr [CHR 0xE9, CHR ''c'', CHR ''r'', CHR ''a'', CHR ''n'']),
                        (''VALUE'', JObj [(''NAME'', JStr ''Screen'')])]])]"

definition current_doc :: jsval where
  "current_doc =
     JObj [(''STATUS'', JObj [(''RESULT'', JStr ''SUCCESS'')]),
           (''ITEMS'', JArr [JObj [(''HASHVAL'', JNum (Finite 77)), (''NAME'', JStr ''current_input''),
                                   (''VALUE'', JStr ''bt'')]])]"

definition input_device :: "jsval \<Rightarrow> transport" where
  "input_device doc =
     by_path tv
       [((GET, ''/menu_native/dynamic/audio_settings/input''), doc),
        ((GET, ''/menu_native/dynamic/audio_settings/input/current_input''), current_doc)]"

definition requires_pairing_doc :: jsval where
  "requires_pairing_doc =
     JObj [(''STATUS'', JObj [(''RESULT'', JStr ''REQUIRES_PAIRING''), (''DETAIL'', JStr ''Requires pairing'')])]"

definition volume_doc :: jsval where
  "volume_doc =
     JObj [(''STATUS'', JObj [(''RESULT'', JStr ''SUCCESS'')]),
           (''ITEMS'', JArr [JObj [(''CNAME'', JStr ''mute''), (''HASHVAL'', JNum (Finite 7))],
                             JObj [(''CNAME'', JStr ''volume''), (''HASHVAL'', JNum (Finite 4242)),
                                   (''VALUE'', JNum (Finite 10))]])]"

definition blocked_doc :: jsval where
  "blocked_doc =
     JObj [(''STATUS'', JObj [(''RESULT'', JStr ''BLOCKED''), (''DETAIL'', JStr ''Blocked'')])]"

definition failure_doc :: jsval where
  "failure_doc = JObj [(''STATUS'', JObj [(''RESULT'', JStr ''FAILURE'')])]"

definition started_doc :: jsval where
  "started_doc =
     JObj [(''STATUS'', JObj [(''RESULT'', JStr ''SUCCESS'')]),
           (''ITEM'', JObj [(''PAIRING_REQ_TOKEN'', JNum (Finite 398050)), (''CHALLENGE_TYPE'', JNum (Finite 1))])]"

definition paired_doc :: jsval where
  "paired_doc =
     JObj [(''STATUS'', JObj [(''RESULT'', JStr ''SUCCESS'')]),
           (''ITEM'', JObj [(''AUTH_TOKEN'', JStr ''Zmge7tbkiz'')])]"

section \<open>Basic facts\<close>

lemmas lower_simps = lower_def lower_char_def upper_case_def lower_case_def

text \<open>The two tables by code unit: the three ranges, and 32 above each.\<close>

lemma upper_case_code_units:
  "map (of_char :: char \<Rightarrow> nat) upper_case = [65..<91] @ [192..<215] @ [216..<223]"
  by (simp add: upper_case_def upt_rec)

lemma lower_case_code_units:
  "map (of_char :: char \<Rightarrow> nat) lower_case = map (\<lambda>n. n + 32) (map of_char upper_case)"
  by (simp add: upper_case_def lower_case_def)

lemma lower_example: "lower ''HDMI-1'' = ''hdmi-1''"
  by (simp add: lower_simps)

lemma lower_latin1_example:
  "lower [CHR 0xC9, CHR ''c'', CHR ''R'', CHR 0xD7, CHR 0xDF, CHR 0xDE, CHR 0xFF] =
     [CHR 0xE9, CHR ''c'', CHR ''r'', CHR 0xD7, CHR 0xDF, CHR 0xFE, CHR 0xFF]"
  by (simp add: lower_simps)

lemma show_nat_example: "show_nat 9000 = ''9000''"
  by (simp add: show_nat.simps digit_def)

lemma or_default_omitted:
  "or_default JUndefined 1 = JStr ''node-app-1''" "or_default JUndefined 2 = JStr ''node-app-2''"
  by (simp_all add: or_default_def show_nat.simps digit_def)

text \<open>The test of \<open>pairing.initiate\<close> is true exactly when \<open>data.STATUS.RESULT\<close> can be
  read and is \<open>'SUCCESS'\<close>.\<close>

lemma initiate_succeeded_iff:
  "initiate_succeeded data \<longleftrightarrow> status_result data = Some (JStr ''SUCCESS'')"
proof (cases data)
  case (JObj kvs)
  show ?thesis
  proof (cases "map_of kvs ''STATUS''")
    case None
    with JObj show ?thesis by (simp add: initiate_succeeded_def status_result_def)
  next
    case (Some st)
    with JObj show ?thesis
      by (cases st) (auto simp: initiate_succeeded_def status_result_def split: option.splits)
  qed
qed (auto simp: initiate_succeeded_def status_result_def)

lemma status_result_truthy:
  assumes "status_result data = Some r" "r \<noteq> JUndefined"
  shows "truthy data"
  using assms by (cases data) (auto simp: status_result_def)

lemma status_result_not_string:
  assumes "status_result data = Some r" "r \<noteq> JUndefined"
  shows "data \<noteq> JStr m"
  using assms by (auto simp: status_result_def)

lemma status_result_docs:
  "status_result blocked_doc = Some (JStr ''BLOCKED'')"
  "status_result failure_doc = Some (JStr ''FAILURE'')"
  "status_result started_doc = Some (JStr ''SUCCESS'')"
  "status_result paired_doc = Some (JStr ''SUCCESS'')"
  by (simp_all add: status_result_def blocked_doc_def failure_doc_def started_doc_def paired_doc_def)

section \<open>Pairing and key commands: the claims\<close>

lemma initiate_sent:
  "fst (initiate s dev t1 t2 name ident) =
     [\<lparr>verb = PUT, url = host s @ ''/pairing/start'', json = True, rejectUnauthorized = False,
       body = JObj [(''DEVICE_NAME'', or_default name t1), (''DEVICE_ID'', or_default ident t2)],
       headers = None\<rparr>]"
  unfolding initiate_def sendRequest_def request_options_def Let_def
  by (simp split: reply.split option.split)

lemma initiate_deviceName:
  "deviceName (snd (snd (initiate s dev t1 t2 name ident))) = or_default name t1"
  unfolding initiate_def sendRequest_def request_options_def Let_def
  by (simp split: reply.split option.split)

lemma initiate_deviceId:
  "deviceId (snd (snd (initiate s dev t1 t2 name ident))) = or_default ident t2"
  unfolding initiate_def sendRequest_def request_options_def Let_def
  by (simp split: reply.split option.split)

lemma initiate_authKey:
  "authKey (snd (snd (initiate s dev t1 t2 name ident))) = authKey s"
  unfolding initiate_def sendRequest_def request_options_def Let_def
  by (simp split: reply.split option.split)

lemma initiate_success:
  assumes "status_result data = Some (JStr ''SUCCESS'')"
    and "member_of data ''ITEM'' \<bind> (\<lambda>item. member_of item ''PAIRING_REQ_TOKEN'') = Some tok"
  shows "snd (initiate s (answering data) t1 t2 name ident) =
           (Resolved data,
            s\<lparr>deviceName := or_default name t1, deviceId := or_default ident t2,
              pairingRequestToken := tok\<rparr>)"
  using assms initiate_succeeded_iff [of data]
  by (simp add: initiate_def sendRequest_def answering_def Let_def)

lemma pair_sent:
  "fst (pair s dev pin) =
     [\<lparr>verb = PUT, url = host s @ ''/pairing/pair'', json = True, rejectUnauthorized = False,
       body = JObj [(''DEVICE_ID'', deviceId s), (''CHALLENGE_TYPE'', JNum (Finite 1)),
                    (''RESPONSE_VALUE'', pin), (''PAIRING_REQ_TOKEN'', pairingRequestToken s)],
       headers = None\<rparr>]"
  unfolding pair_def sendRequest_def request_options_def Let_def
  by (simp split: reply.split option.split)

lemma pair_success:
  assumes "status_result data = Some (JStr ''SUCCESS'')"
    and "member_of data ''ITEM'' \<bind> (\<lambda>item. member_of item ''AUTH_TOKEN'') = Some tok"
  shows "snd (pair s (answering data) pin) = (Resolved data, s\<lparr>authKey := tok\<rparr>)"
  using assms status_result_truthy [OF assms(1)]
  by (simp add: pair_def sendRequest_def answering_def Let_def)

text \<open>The credential after \<open>pairing.pair\<close> differs from the one before only when the
  device answered \<open>SUCCESS\<close>, and then it is the \<open>AUTH_TOKEN\<close> of that answer.\<close>

lemma pair_authKey_changed:
  assumes ne: "authKey (snd (snd (pair s dev pin))) \<noteq> authKey s"
  shows "\<exists>d. dev (hd (fst (pair s dev pin))) = Fulfilled d \<and>
             status_result d = Some (JStr ''SUCCESS'') \<and>
             member_of d ''ITEM'' \<bind> (\<lambda>item. member_of item ''AUTH_TOKEN'') =
               Some (authKey (snd (snd (pair s dev pin))))"
proof (cases "dev (hd (fst (pair s dev pin)))")
  case (Failed e)
  then have "snd (snd (pair s dev pin)) = s"
    unfolding pair_sent by (simp add: pair_def sendRequest_def request_options_def Let_def)
  with ne show ?thesis by simp
next
  case (Fulfilled d)
  then have eq: "snd (pair s dev pin) =
      (if \<not> truthy d then (Rejected (Val d), s)
       else case status_result d of
              None \<Rightarrow> (Rejected TypeError, s)
            | Some r \<Rightarrow>
                if r = JStr ''SUCCESS'' then
                  (case member_of d ''ITEM'' \<bind> (\<lambda>item. member_of item ''AUTH_TOKEN'') of
                     None \<Rightarrow> (Rejected TypeError, s)
                   | Some tok \<Rightarrow> (Resolved d, s\<lparr>authKey := tok\<rparr>))
                else (Rejected (Val d), s))"
    unfolding pair_sent by (simp add: pair_def sendRequest_def request_options_def Let_def split: option.split)
  from ne have "status_result d = Some (JStr ''SUCCESS'') \<and>
           member_of d ''ITEM'' \<bind> (\<lambda>item. member_of item ''AUTH_TOKEN'') =
             Some (authKey (snd (snd (pair s dev pin))))"
    unfolding eq by (simp split: if_splits option.splits)
  with Fulfilled show ?thesis by simp
qed

lemma pair_pairingRequestToken:
  "pairingRequestToken (snd (snd (pair s dev pin))) = pairingRequestToken s"
  unfolding pair_def sendRequest_def request_options_def Let_def
  by (simp split: reply.split option.split)

text \<open>
  Claim C7. When the device answers \<open>pairing.initiate\<close> with \<open>STATUS.RESULT\<close> equal to
  \<open>'BLOCKED'\<close>, the promise is rejected with the fixed message about a pairing request
  already in progress, which is not the response; the stored pairing-request token and
  the stored credential stay as they were. Any other result that is not \<open>'SUCCESS'\<close>
  rejects with the response itself.
\<close>

theorem initiate_blocked_rejects_with_message:
  assumes "status_result data = Some (JStr ''BLOCKED'')"
    and "status_result data' = Some r" and "r \<noteq> JStr ''SUCCESS''" and "r \<noteq> JStr ''BLOCKED''"
  shows "snd (initiate s (answering data) t1 t2 name ident) =
           (Rejected (Val (JStr BLOCKED_MESSAGE)),
            s\<lparr>deviceName := or_default name t1, deviceId := or_default ident t2\<rparr>)
       \<and> JStr BLOCKED_MESSAGE \<noteq> data
       \<and> pairingRequestToken (snd (snd (initiate s (answering data) t1 t2 name ident))) =
           pairingRequestToken s
       \<and> authKey (snd (snd (initiate s (answering data) t1 t2 name ident))) = authKey s
       \<and> fst (snd (initiate s (answering data') t1 t2 name ident)) = Rejected (Val data')"
proof -
  have no: "\<not> initiate_succeeded data" "\<not> initiate_succeeded data'"
    using assms by (simp_all add: initiate_succeeded_iff)
  have 1: "snd (initiate s (answering data) t1 t2 name ident) =
           (Rejected (Val (JStr BLOCKED_MESSAGE)),
            s\<lparr>deviceName := or_default name t1, deviceId := or_default ident t2\<rparr>)"
    using no(1) assms(1) by (simp add: initiate_def sendRequest_def answering_def Let_def)
  have 2: "JStr BLOCKED_MESSAGE \<noteq> data"
    using status_result_not_string [OF assms(1)] by auto
  have 3: "fst (snd (initiate s (answering data') t1 t2 name ident)) = Rejected (Val data')"
    using no(2) assms(2-4) by (simp add: initiate_def sendRequest_def answering_def Let_def)
  show ?thesis using 1 2 3 by simp
qed

theorem initiate_blocked_witness:
  "snd (initiate (SMARTCAST ''tv'' (JStr ''key'')) (answering blocked_doc) 1 2 JUndefined JUndefined) =
     (Rejected (Val (JStr BLOCKED_MESSAGE)),
      (SMARTCAST ''tv'' (JStr ''key''))\<lparr>deviceName := JStr ''node-app-1'', deviceId := JStr ''node-app-2''\<rparr>)
   \<and> fst (snd (initiate (SMARTCAST ''tv'' (JStr ''key'')) (answering failure_doc) 1 2 JUndefined JUndefined)) =
       Rejected (Val failure_doc)"
  using initiate_blocked_rejects_with_message
          [OF status_result_docs(1) status_result_docs(2),
           of "SMARTCAST ''tv'' (JStr ''key'')" 1 2 JUndefined JUndefined]
        or_default_omitted
  by simp

text \<open>
  Claim C8. \<open>pairing.pair\<close> answered with \<open>SUCCESS\<close> stores the \<open>AUTH_TOKEN\<close> of the
  answer as the credential; after a successful \<open>pairing.initiate\<close> on a session built
  without a key, the credential goes from the empty string to that token, and the request
  carries the token \<open>initiate\<close> stored. An answer whose \<open>STATUS.RESULT\<close> is not
  \<open>'SUCCESS'\<close>, and a falsy answer, reject with the answer and leave the session as it
  was. Whatever the transport does, the pairing-request token is unchanged, and the
  credential changes only to the \<open>AUTH_TOKEN\<close> of a \<open>SUCCESS\<close> answer: \<open>pair\<close> before
  \<open>initiate\<close> makes up no token.
\<close>

theorem pair_sets_credential_only_on_success:
  "(status_result ok = Some (JStr ''SUCCESS'') \<longrightarrow>
      member_of ok ''ITEM'' \<bind> (\<lambda>item. member_of item ''AUTH_TOKEN'') = Some tok \<longrightarrow>
      snd (pair s (answering ok) pin) = (Resolved ok, s\<lparr>authKey := tok\<rparr>))
   \<and> (status_result started = Some (JStr ''SUCCESS'') \<longrightarrow>
      member_of started ''ITEM'' \<bind> (\<lambda>item. member_of item ''PAIRING_REQ_TOKEN'') = Some req_tok \<longrightarrow>
      status_result ok = Some (JStr ''SUCCESS'') \<longrightarrow>
      member_of ok ''ITEM'' \<bind> (\<lambda>item. member_of item ''AUTH_TOKEN'') = Some tok \<longrightarrow>
      authKey (snd (snd (initiate (SMARTCAST ip JUndefined) (answering started) t1 t2 name ident))) = JStr [] \<and>
      map (\<lambda>r. member_of (body r) ''PAIRING_REQ_TOKEN'')
          (fst (pair (snd (snd (initiate (SMARTCAST ip JUndefined) (answering started) t1 t2 name ident)))
                 (answering ok) pin)) = [Some req_tok] \<and>
      authKey (snd (snd (pair (snd (snd (initiate (SMARTCAST ip JUndefined) (answering started) t1 t2 name ident)))
                 (answering ok) pin))) = tok)
   \<and> (status_result bad = Some r \<longrightarrow> r \<noteq> JStr ''SUCCESS'' \<longrightarrow>
      snd (pair s (answering bad) pin) = (Rejected (Val bad), s))
   \<and> (\<not> truthy falsy \<longrightarrow> snd (pair s (answering falsy) pin) = (Rejected (Val falsy), s))
   \<and> (authKey (snd (snd (pair s dev pin))) \<noteq> authKey s \<longrightarrow>
        (\<exists>d. dev (hd (fst (pair s dev pin))) = Fulfilled d \<and>
             status_result d = Some (JStr ''SUCCESS'') \<and>
             member_of d ''ITEM'' \<bind> (\<lambda>item. member_of item ''AUTH_TOKEN'') =
               Some (authKey (snd (snd (pair s dev pin))))))
   \<and> pairingRequestToken (snd (snd (pair s dev pin))) = pairingRequestToken s"
proof -
  have 2: "snd (pair s (answering bad) pin) = (Rejected (Val bad), s)"
    if "status_result bad = Some r" "r \<noteq> JStr ''SUCCESS''"
    using that by (simp add: pair_def sendRequest_def answering_def Let_def)
  have 3: "snd (pair s (answering falsy) pin) = (Rejected (Val falsy), s)" if "\<not> truthy falsy"
    using that by (simp add: pair_def sendRequest_def answering_def Let_def)
  have 4: "authKey (SMARTCAST ip JUndefined) = JStr []"
    by (simp add: SMARTCAST_def)
  show ?thesis
    using 2 3 4 pair_authKey_changed [of s dev pin]
    by (simp add: pair_success initiate_success initiate_authKey pair_sent pair_pairingRequestToken)
qed

theorem pair_sets_credential_witness:
  "snd (pair (SMARTCAST ''tv'' JUndefined) (answering paired_doc) (JStr ''1234'')) =
     (Resolved paired_doc, (SMARTCAST ''tv'' JUndefined)\<lparr>authKey := JStr ''Zmge7tbkiz''\<rparr>)
   \<and> authKey (snd (snd (pair (snd (snd (initiate (SMARTCAST ''tv'' JUndefined) (answering started_doc) 1 2 JUndefined JUndefined)))
                 (answering paired_doc) (JStr ''1234'')))) = JStr ''Zmge7tbkiz''
   \<and> snd (pair (SMARTCAST ''tv'' JUndefined) (answering failure_doc) (JStr ''1234'')) =
       (Rejected (Val failure_doc), SMARTCAST ''tv'' JUndefined)
   \<and> snd (pair (SMARTCAST ''tv'' JUndefined) (answering JNull) (JStr ''1234'')) =
       (Rejected (Val JNull), SMARTCAST ''tv'' JUndefined)
   \<and> (\<exists>d. answering paired_doc (hd (fst (pair (SMARTCAST ''tv'' JUndefined) (answering paired_doc) (JStr ''1234'')))) = Fulfilled d \<and>
           status_result d = Some (JStr ''SUCCESS''))"
proof -
  have a: "member_of paired_doc ''ITEM'' \<bind> (\<lambda>item. member_of item ''AUTH_TOKEN'') = Some (JStr ''Zmge7tbkiz'')"
    by (simp add: paired_doc_def)
  have b: "member_of started_doc ''ITEM'' \<bind> (\<lambda>item. member_of item ''PAIRING_REQ_TOKEN'') = Some (JNum (Finite 398050))"
    by (simp add: started_doc_def)
  have c: "authKey (SMARTCAST ''tv'' JUndefined) \<noteq> JStr ''Zmge7tbkiz''"
    by (simp add: SMARTCAST_def)
  show ?thesis
    using pair_sets_credential_only_on_success
            [of paired_doc "JStr ''Zmge7tbkiz''" "SMARTCAST ''tv'' JUndefined" "JStr ''1234''"
                started_doc "JNum (Finite 398050)" "''tv''" 1 2 JUndefined JUndefined
                failure_doc "JStr ''FAILURE''" JNull "answering paired_doc"]
          a b c status_result_docs
    by auto
qed

text \<open>
  Claim C9. The one request of \<open>control.keyCommand\<close> is a \<open>PUT\<close> whose body is an
  object with the single member \<open>KEYLIST\<close>, a list of one object with exactly
  \<open>CODESET\<close>, \<open>CODE\<close> and \<open>ACTION\<close>: the codeset and the code as given, and the action
  as given when it is truthy, as every action name is. A call that leaves the action out
  sends \<open>'KEYPRESS'\<close> (and so does one whose action is falsy, such as the empty string).
\<close>

theorem keyCommand_dispatches_key_list:
  "fst (keyCommand s dev codeset code action) =
     [\<lparr>verb = PUT, url = host s @ ''/key_command/'', json = True, rejectUnauthorized = False,
       body = JObj [(''KEYLIST'', JArr [JObj [(''CODESET'', codeset), (''CODE'', code),
                 (''ACTION'', if truthy action then action else JStr ''KEYPRESS'')]])],
       headers = (if truthy (authKey s) then Some [(''AUTH'', authKey s)] else None)\<rparr>]
   \<and> keyData codeset code (JStr (c # cs)) =
       JObj [(''KEYLIST'', JArr [JObj [(''CODESET'', codeset), (''CODE'', code), (''ACTION'', JStr (c # cs))]])]
   \<and> keyData codeset code JUndefined =
       JObj [(''KEYLIST'', JArr [JObj [(''CODESET'', codeset), (''CODE'', code), (''ACTION'', JStr ''KEYPRESS'')]])]"
  by (simp add: keyCommand_def keyData_def sendRequest_def request_options_def Let_def)

text \<open>
  Claim C10. \<open>pairing.initiate\<close> stores the device name and the device id whatever the
  transport answers: the caller's argument when it is truthy, and otherwise
  \<open>'node-app-'\<close> followed by the clock reading. The request carries the same two values,
  and when the request fails they are stored all the same. A later \<open>pairing.pair\<close>
  sends the device id of the \<open>initiate\<close> call before it, whether or not that call
  succeeded.
\<close>

theorem initiate_overwrites_device_identity:
  "deviceName (snd (snd (initiate s dev t1 t2 name ident))) =
     (if truthy name then name else JStr (''node-app-'' @ show_nat t1)) \<and>
   deviceId (snd (snd (initiate s dev t1 t2 name ident))) =
     (if truthy ident then ident else JStr (''node-app-'' @ show_nat t2)) \<and>
   map body (fst (initiate s dev t1 t2 name ident)) =
     [JObj [(''DEVICE_NAME'', if truthy name then name else JStr (''node-app-'' @ show_nat t1)),
            (''DEVICE_ID'', if truthy ident then ident else JStr (''node-app-'' @ show_nat t2))]] \<and>
   map (\<lambda>r. member_of (body r) ''DEVICE_ID'')
       (fst (pair (snd (snd (initiate s dev t1 t2 name ident))) dev' pin)) =
     [Some (if truthy ident then ident else JStr (''node-app-'' @ show_nat t2))] \<and>
   snd (initiate s (failing e) t1 t2 name ident) =
     (Rejected (TransportError e),
      s\<lparr>deviceName := (if truthy name then name else JStr (''node-app-'' @ show_nat t1)),
        deviceId := (if truthy ident then ident else JStr (''node-app-'' @ show_nat t2))\<rparr>) \<and>
   deviceName (snd (snd (initiate s dev t1 t2 (JStr (c # cs)) (JStr (d # ds))))) = JStr (c # cs) \<and>
   deviceId (snd (snd (initiate s dev t1 t2 (JStr (c # cs)) (JStr (d # ds))))) = JStr (d # ds) \<and>
   deviceName (snd (snd (initiate s dev t1 t2 JUndefined JUndefined))) =
     JStr (''node-app-'' @ show_nat t1) \<and>
   deviceId (snd (snd (initiate s dev t1 t2 JUndefined JUndefined))) =
     JStr (''node-app-'' @ show_nat t2)"
proof -
  have failed: "snd (initiate s (failing e) t1 t2 name ident) =
     (Rejected (TransportError e),
      s\<lparr>deviceName := or_default name t1, deviceId := or_default ident t2\<rparr>)"
    by (simp add: initiate_def sendRequest_def failing_def Let_def)
  show ?thesis
    using failed
    by (simp add: initiate_sent initiate_deviceName initiate_deviceId pair_sent or_default_def)
qed

text \<open>
  On the session \<open>tv\<close>: a first call with the id \<open>first-id\<close> that the device accepts,
  then a second one with the name \<open>remote\<close> and the id \<open>second-id\<close> whose request
  fails. The session holds the second call's name and id, and \<open>pair\<close> sends
  \<open>second-id\<close>. A call without arguments whose request fails stores the two defaults.
\<close>

theorem initiate_overwrites_witness:
  "snd (snd (initiate
              (snd (snd (initiate tv (answering started_doc) 1700000000000 1700000000001
                           JUndefined (JStr ''first-id''))))
              (failing (RequestError ''ECONNREFUSED'')) 1700000000002 1700000000003
              (JStr ''remote'') (JStr ''second-id''))) =
     tv\<lparr>deviceName := JStr ''remote'', deviceId := JStr ''second-id'',
        pairingRequestToken := JNum (Finite 398050)\<rparr>
   \<and> map (\<lambda>r. member_of (body r) ''DEVICE_ID'')
       (fst (pair (snd (snd (initiate
              (snd (snd (initiate tv (answering started_doc) 1700000000000 1700000000001
                           JUndefined (JStr ''first-id''))))
              (failing (RequestError ''ECONNREFUSED'')) 1700000000002 1700000000003
              (JStr ''remote'') (JStr ''second-id''))))
          (answering paired_doc) (JStr ''1234''))) = [Some (JStr ''second-id'')]
   \<and> snd (initiate tv (failing (RequestError ''ECONNREFUSED'')) 1700000000000 1700000000001
           JUndefined JUndefined) =
       (Rejected (TransportError (RequestError ''ECONNREFUSED'')),
        tv\<lparr>deviceName := JStr ''node-app-1700000000000'',
           deviceId := JStr ''node-app-1700000000001''\<rparr>)"
proof -
  let ?e = "RequestError ''ECONNREFUSED''"
  let ?s1 = "snd (snd (initiate tv (answering started_doc) 1700000000000 1700000000001
                         JUndefined (JStr ''first-id'')))"
  have digits: "show_nat 1700000000000 = ''1700000000000''" "show_nat 1700000000001 = ''1700000000001''"
    by (simp_all add: show_nat.simps digit_def)
  have tok: "member_of started_doc ''ITEM'' \<bind> (\<lambda>item. member_of item ''PAIRING_REQ_TOKEN'') =
               Some (JNum (Finite 398050))"
    by (simp add: started_doc_def)
  have s1: "?s1 = tv\<lparr>deviceName := JStr ''node-app-1700000000000'', deviceId := JStr ''first-id'',
                      pairingRequestToken := JNum (Finite 398050)\<rparr>"
    using initiate_success [OF status_result_docs(3) tok, of tv 1700000000000 1700000000001
            JUndefined "JStr ''first-id''"] digits
    by (simp add: or_default_def)
  show ?thesis
    using initiate_overwrites_device_identity
            [of ?s1 "failing ?e" 1700000000002 1700000000003 "JStr ''remote''" "JStr ''second-id''"
                "answering paired_doc" "JStr ''1234''" ?e]
          initiate_overwrites_device_identity
            [of tv "failing ?e" 1700000000000 1700000000001 JUndefined JUndefined
                "answering paired_doc" "JStr ''1234''" ?e]
          digits
    by (simp add: s1 pair_sent)
qed

section \<open>What each operation sends\<close>

lemma keyCommand_sent:
  "fst (keyCommand s dev codeset code action) =
     [request_options PUT (host s @ ''/key_command/'') (authKey s) (keyData codeset code action)]"
  by (simp add: keyCommand_def sendRequest_def Let_def)

lemma currentMode_sent:
  "fst (currentMode s dev) =
     [request_options GET (host s @ ''/state/device/power_mode'') JUndefined JUndefined]"
  by (simp add: currentMode_def sendRequest_def Let_def)

lemma input_list_sent:
  "fst (input_list s dev) =
     [request_options GET (host s @ ''/menu_native/dynamic/audio_settings/input'') (authKey s) JUndefined]"
  by (simp add: input_list_def sendRequest_def Let_def)

lemma input_current_sent:
  "fst (input_current s dev) =
     [request_options GET (host s @ ''/menu_native/dynamic/audio_settings/input/current_input'') (authKey s) JUndefined]"
  by (simp add: input_current_def sendRequest_def Let_def)

lemma volume_get_sent:
  "fst (volume_get s dev) =
     [request_options GET (host s @ ''/menu_native/dynamic/audio_settings/audio/volume'') (authKey s) JUndefined]"
  by (simp add: volume_get_def sendRequest_def Let_def)

lemma getMuteState_sent:
  "fst (getMuteState s dev) =
     [request_options GET (host s @ ''/menu_native/dynamic/tv_settings/audio/mute'') (authKey s) JUndefined]"
  by (simp add: getMuteState_def sendRequest_def Let_def)

lemma volume_set_sent: "fst (volume_set conv s dev v) = []"
  by (simp add: volume_set_def volume_set_body_def this_settings_audio_get_def Let_def)

lemma input_set_then_sent:
  "set (fst (input_set_then conv s dev name inputList currentInput)) \<subseteq>
     range (request_options PUT
              (host s @ ''/menu_native/dynamic/audio_settings/input/current_input'') (authKey s))"
  unfolding input_set_then_def sendRequest_def Let_def
  by (auto split: option.splits bool.splits if_splits)

lemma input_set_sent:
  "set (fst (input_set conv s dev list_first name)) \<subseteq>
     {request_options GET (host s @ ''/menu_native/dynamic/audio_settings/input'') (authKey s) JUndefined,
      request_options GET (host s @ ''/menu_native/dynamic/audio_settings/input/current_input'')
        (authKey s) JUndefined}
     \<union> range (request_options PUT
                (host s @ ''/menu_native/dynamic/audio_settings/input/current_input'') (authKey s))"
proof -
  let ?r1 = "request_options GET (host s @ ''/menu_native/dynamic/audio_settings/input'') (authKey s) JUndefined"
  let ?r2 = "request_options GET (host s @ ''/menu_native/dynamic/audio_settings/input/current_input'') (authKey s) JUndefined"
  show ?thesis
  proof (cases "dev ?r1")
    case (Failed e1)
    then show ?thesis
      unfolding input_set_def sendRequest_def Let_def
      by (cases "dev ?r2") auto
  next
    case F1: (Fulfilled inputList)
    show ?thesis
    proof (cases "dev ?r2")
      case (Failed e2)
      with F1 show ?thesis
        unfolding input_set_def sendRequest_def Let_def by auto
    next
      case (Fulfilled currentInput)
      with F1 input_set_then_sent [of conv s dev name inputList currentInput] show ?thesis
        unfolding input_set_def sendRequest_def Let_def
        by (auto split: prod.splits)
    qed
  qed
qed

lemma key_sent:
  "fst (key s dev codeset code) =
     [request_options PUT (host s @ ''/key_command/'') (authKey s)
        (keyData (JNum (Finite (of_nat codeset))) (JNum (Finite (of_nat code))) JUndefined)]"
  by (simp add: key_def keyCommand_sent)

lemma fst_drop_state: "fst (case x of (sent, p, s') \<Rightarrow> (sent, p)) = fst x"
  by (cases x) simp

lemma headers_request_options:
  "headers (request_options m u k d) = (if truthy k then Some [(''AUTH'', k)] else None)"
  "url (request_options m u k d) = u"
  by (simp_all add: request_options_def)

text \<open>The headers and the address of every request of every operation.\<close>

lemma perform_headers:
  assumes "req \<in> set (fst (perform conv s dev op))"
  shows "headers req =
           (if sends_no_key op then None
            else if truthy (authKey s) then Some [(''AUTH'', authKey s)] else None)"
proof (cases op)
  case (InputSet lf name)
  with assms input_set_sent [of conv s dev lf name] show ?thesis
    by (auto simp: headers_request_options)
qed (use assms in \<open>simp_all add: currentMode_sent fst_drop_state initiate_sent pair_sent
        input_list_sent input_current_sent keyCommand_sent key_sent volume_get_sent
        volume_set_sent getMuteState_sent headers_request_options\<close>)

lemma perform_url:
  assumes "req \<in> set (fst (perform conv s dev op))"
  shows "url req \<in> (\<lambda>p. host s @ p) ` set endpoints"
proof (cases op)
  case (InputSet lf name)
  with assms input_set_sent [of conv s dev lf name] show ?thesis
    by (auto simp: headers_request_options endpoints_def)
qed (use assms in \<open>simp_all add: currentMode_sent fst_drop_state initiate_sent pair_sent
        input_list_sent input_current_sent keyCommand_sent key_sent volume_get_sent
        volume_set_sent getMuteState_sent headers_request_options endpoints_def\<close>)

text \<open>
  Claim C2, as amended. On a session whose stored key is truthy (a non-empty token), every
  request of every operation other than \<open>pairing.initiate\<close>, \<open>pairing.pair\<close> and
  \<open>power.currentMode\<close> carries exactly one header, \<open>AUTH\<close>, whose value is the stored
  key; those three send no header at all. The address of every request is \<open>host\<close>
  followed by one of the fixed paths, so the key never travels in the address.
\<close>

theorem stored_key_travels_in_AUTH_header:
  assumes "truthy (authKey s)" and "req \<in> set (fst (perform conv s dev op))"
  shows "headers req = (if sends_no_key op then None else Some [(''AUTH'', authKey s)])
       \<and> url req \<in> (\<lambda>p. host s @ p) ` set endpoints"
  using assms perform_headers [OF assms(2)] perform_url [OF assms(2)] by simp

theorem stored_key_travels_witness:
  "headers (request_options GET
              (host (SMARTCAST ''tv'' (JStr ''key'')) @ ''/menu_native/dynamic/audio_settings/input'')
              (JStr ''key'') JUndefined) = Some [(''AUTH'', JStr ''key'')]
   \<and> url (request_options GET
              (host (SMARTCAST ''tv'' (JStr ''key'')) @ ''/menu_native/dynamic/audio_settings/input'')
              (JStr ''key'') JUndefined)
       \<in> (\<lambda>p. host (SMARTCAST ''tv'' (JStr ''key'')) @ p) ` set endpoints"
proof -
  let ?s = "SMARTCAST ''tv'' (JStr ''key'')"
  let ?req = "request_options GET (host ?s @ ''/menu_native/dynamic/audio_settings/input'') (JStr ''key'') JUndefined"
  have key: "authKey ?s = JStr ''key''" by (simp add: SMARTCAST_def)
  then have t: "truthy (authKey ?s)" by simp
  have sent: "?req \<in> set (fst (perform no_coercion ?s (answering inputs_doc) InputList))"
    by (simp add: input_list_sent key)
  show ?thesis
    using stored_key_travels_in_AUTH_header [OF t sent] by (simp add: key)
qed

text \<open>
  Claim C2 as stated fails: \<open>power.currentMode\<close> on a session with a stored key sends
  its request without any header.
\<close>

theorem currentMode_sends_no_AUTH_header:
  "truthy (authKey (SMARTCAST ''tv'' (JStr ''key''))) \<and>
   map headers (fst (currentMode (SMARTCAST ''tv'' (JStr ''key'')) (answering JNull))) = [None]"
  by (simp add: SMARTCAST_def currentMode_sent headers_request_options)

section \<open>Volume: the claims\<close>

text \<open>
  Claim C3, at the input where the code departs from it. When the transport fails,
  \<open>control.volume.get\<close> and \<open>control.volume.getMuteState\<close> have sent their request and
  the promise they returned is never settled: it is neither rejected with the transport's
  error nor resolved.
\<close>

theorem volume_get_stays_pending_on_failure:
  "volume_get s (failing e) =
     ([request_options GET (host s @ ''/menu_native/dynamic/audio_settings/audio/volume'') (authKey s) JUndefined],
      Pending)
   \<and> getMuteState s (failing e) =
     ([request_options GET (host s @ ''/menu_native/dynamic/tv_settings/audio/mute'') (authKey s) JUndefined],
      Pending)"
  by (simp add: volume_get_def getMuteState_def sendRequest_def failing_def Let_def)

text \<open>Every other operation that sends a request passes the transport's failure on
  (\<open>control.volume.set\<close> sends none).\<close>

lemma snd_drop_state: "snd (case x of (sent, p, s') \<Rightarrow> (sent, p)) = fst (snd x)"
  by (cases x) simp

lemma transport_failure_is_passed_on:
  assumes "op \<noteq> VolumeGet" and "op \<noteq> GetMuteState" and "\<forall>v. op \<noteq> VolumeSet v"
  shows "snd (perform conv s (failing e) op) = Rejected (TransportError e)"
  using assms
  by (cases op)
     (simp_all add: snd_drop_state currentMode_def initiate_def pair_def input_list_def
        input_current_def input_set_def keyCommand_def key_def sendRequest_def failing_def Let_def)

text \<open>
  Claim C1, at the input where the code departs from it. \<open>control.volume.set(42)\<close> sends
  nothing and its promise is rejected with the TypeError of \<open>this.settings.audio\<close>: no
  settings are read and no \<open>MODIFY\<close> request is sent. The same holds for every number
  from 0 to 100.
\<close>

theorem volume_set_throws_before_any_request:
  "volume_set conv s dev (JNum (Finite 42)) = ([], Rejected TypeError)"
  by (simp add: volume_set_def volume_set_body_def this_settings_audio_get_def settle_def Let_def)

lemma volume_set_in_range:
  assumes "0 \<le> x" "x \<le> 100"
  shows "volume_set conv s dev (JNum (Finite x)) = ([], Rejected TypeError)"
  using assms
  by (simp add: volume_set_def volume_set_body_def this_settings_audio_get_def settle_def Let_def)

lemma member_truthy: "member_of v k = Some w \<Longrightarrow> w \<noteq> JUndefined \<Longrightarrow> truthy v"
  by (cases v) auto

lemma find_volume_truthy:
  "find_volume xs = Some v \<Longrightarrow> v \<noteq> JUndefined \<Longrightarrow> member_of v ''CNAME'' = Some (JStr ''volume'') \<and> v \<in> set xs"
  by (induction xs) (auto split: option.splits if_splits)

text \<open>With a \<open>settings.audio.get\<close> in place the body does what the claim says.\<close>

lemma volume_set_body_modifies:
  assumes range: "0 \<le> x" "x \<le> 100"
    and items: "member_of settings ''ITEMS'' = Some (JArr xs)"
    and found: "find_volume xs = Some volume" "volume \<noteq> JUndefined"
    and hash: "member_of volume ''HASHVAL'' = Some h"
  shows "volume_set_body (Some (sent, Resolved settings)) conv s dev (JNum (Finite x)) =
           (sent @ [request_options PUT (host s @ ''/menu_native/dynamic/tv_settings/audio/volume'')
                      (authKey s)
                      (JObj [(''REQUEST'', JStr ''MODIFY''), (''HASHVAL'', h),
                             (''VALUE'', JNum (Finite (of_int \<lfloor>x + 1 / 2\<rfloor>)))])],
            promise_of (dev (request_options PUT (host s @ ''/menu_native/dynamic/tv_settings/audio/volume'')
                      (authKey s)
                      (JObj [(''REQUEST'', JStr ''MODIFY''), (''HASHVAL'', h),
                             (''VALUE'', JNum (Finite (of_int \<lfloor>x + 1 / 2\<rfloor>)))]))))"
proof -
  have t: "truthy volume"
    using find_volume_truthy [OF found] member_truthy [of volume "''CNAME''"] by auto
  show ?thesis
    using assms t
    by (cases "dev (request_options PUT (host s @ ''/menu_native/dynamic/tv_settings/audio/volume'')
                      (authKey s)
                      (JObj [(''REQUEST'', JStr ''MODIFY''), (''HASHVAL'', h),
                             (''VALUE'', JNum (Finite (of_int \<lfloor>x + 1 / 2\<rfloor>)))]))")
       (simp_all add: volume_set_body_def sendRequest_def settle_def Let_def)
qed

text \<open>
  Claim C6. \<open>control.volume.set\<close> called with a value that is not a number is rejected
  with \<open>'value must be a number'\<close>, and called with a number below 0 or above 100 with
  the out-of-range message; in both cases no request is sent.
\<close>

theorem volume_set_validation_rejects_without_request:
  "(\<not> is_number v \<longrightarrow>
      volume_set conv s dev v = ([], Rejected (Val (JStr NOT_A_NUMBER))))
   \<and> (less_number n (Finite 0) \<or> less_number (Finite 100) n \<longrightarrow>
      volume_set conv s dev (JNum n) = ([], Rejected (Val (JStr OUT_OF_RANGE))))"
  by (simp add: volume_set_def volume_set_body_def this_settings_audio_get_def settle_def Let_def)

theorem volume_set_validation_witness:
  "volume_set no_coercion (SMARTCAST ''tv'' (JStr ''key'')) (answering volume_doc) (JNum (Finite 150)) =
     ([], Rejected (Val (JStr OUT_OF_RANGE)))
   \<and> volume_set no_coercion (SMARTCAST ''tv'' (JStr ''key'')) (answering volume_doc) (JNum (Finite (- 1))) =
     ([], Rejected (Val (JStr OUT_OF_RANGE)))
   \<and> volume_set no_coercion (SMARTCAST ''tv'' (JStr ''key'')) (answering volume_doc) (JStr ''loud'') =
     ([], Rejected (Val (JStr NOT_A_NUMBER)))"
  using volume_set_validation_rejects_without_request
          [of "JStr ''loud''" no_coercion "SMARTCAST ''tv'' (JStr ''key'')" "answering volume_doc" "Finite 150"]
        volume_set_validation_rejects_without_request
          [of "JStr ''loud''" no_coercion "SMARTCAST ''tv'' (JStr ''key'')" "answering volume_doc" "Finite (- 1)"]
  by simp

text \<open>The checks do not return: with a \<open>settings.audio.get\<close> in place, a value out of
  range is still looked up and written.\<close>

lemma volume_set_body_goes_on_after_rejecting:
  "volume_set_body (Some ([r], Resolved volume_doc)) conv s (answering JNull) (JNum (Finite 150)) =
     ([r, request_options PUT (host s @ ''/menu_native/dynamic/tv_settings/audio/volume'') (authKey s)
            (JObj [(''REQUEST'', JStr ''MODIFY''), (''HASHVAL'', JNum (Finite 4242)),
                   (''VALUE'', JNum (Finite 150))])],
      Rejected (Val (JStr OUT_OF_RANGE)))"
proof -
  have "\<lfloor>(301::rat) / 2\<rfloor> = 150" by linarith
  then show ?thesis
    by (simp add: volume_set_body_def volume_doc_def sendRequest_def settle_def answering_def Let_def)
qed

section \<open>Inputs: the claims\<close>

lemma internal_name_Some:
  "internal_name item = Some n \<longleftrightarrow> member_of item ''NAME'' = Some (JStr n)"
  by (auto simp: internal_name_def split: option.splits jsval.splits)

lemma display_name_Some:
  "display_name item = Some d \<longleftrightarrow>
     member_of item ''VALUE'' \<bind> (\<lambda>v. member_of v ''NAME'') = Some (JStr d)"
  by (auto simp: display_name_def split: option.splits jsval.splits)

lemma by_internal_name_well_formed:
  assumes "\<forall>item \<in> set items. internal_name item \<noteq> None"
  shows "by_internal_name name items =
           (case find (\<lambda>item. map_option lower (internal_name item) = Some (lower name)) items of
              Some item \<Rightarrow> Returns (JStr (the (internal_name item)))
            | None \<Rightarrow> Exhausted)"
  using assms
proof (induction items)
  case Nil
  then show ?case by simp
next
  case (Cons item rest)
  then obtain n where n: "internal_name item = Some n" by auto
  then have m: "member_of item ''NAME'' = Some (JStr n)" by (simp add: internal_name_Some)
  from Cons show ?case by (simp add: n m)
qed

lemma by_user_name_well_formed:
  assumes "\<forall>item \<in> set items. internal_name item \<noteq> None \<and> display_name item \<noteq> None"
  shows "by_user_name name items =
           (case find (\<lambda>item. map_option lower (display_name item) = Some (lower name)) items of
              Some item \<Rightarrow> Returns (JStr (the (internal_name item)))
            | None \<Rightarrow> Exhausted)"
  using assms
proof (induction items)
  case Nil
  then show ?case by simp
next
  case (Cons item rest)
  then obtain n d where n: "internal_name item = Some n" and d: "display_name item = Some d" by auto
  then have m: "member_of item ''NAME'' = Some (JStr n)"
    and v: "member_of item ''VALUE'' \<bind> (\<lambda>v. member_of v ''NAME'') = Some (JStr d)"
    by (simp_all add: internal_name_Some display_name_Some)
  from Cons show ?case by (simp add: n d m v)
qed

lemma findInputByName_well_formed:
  assumes "member_of inputList ''ITEMS'' = Some (JArr items)"
    and "\<forall>item \<in> set items. internal_name item \<noteq> None \<and> display_name item \<noteq> None"
  shows "findInputByName conv name inputList =
           Some (case resolve_name_spec name items of Some n \<Rightarrow> JStr n | None \<Rightarrow> JNull)"
proof -
  have wf: "\<forall>item \<in> set items. internal_name item \<noteq> None" using assms(2) by simp
  have f: "internal_name item \<noteq> None" if "find P items = Some item" for P item
    using that wf by (auto simp: find_Some_iff)
  show ?thesis
    unfolding findInputByName_def resolve_name_spec_def
    using assms(1) f
    by (auto simp: by_internal_name_well_formed [OF wf] by_user_name_well_formed [OF assms(2)]
             split: option.splits)
qed

lemma input_set_both_fulfilled:
  assumes "dev (request_options GET (host s @ ''/menu_native/dynamic/audio_settings/input'') (authKey s) JUndefined) = Fulfilled inputList"
    and "dev (request_options GET (host s @ ''/menu_native/dynamic/audio_settings/input/current_input'') (authKey s) JUndefined) = Fulfilled currentInput"
  shows "input_set conv s dev list_first name =
           ([request_options GET (host s @ ''/menu_native/dynamic/audio_settings/input'') (authKey s) JUndefined,
             request_options GET (host s @ ''/menu_native/dynamic/audio_settings/input/current_input'') (authKey s) JUndefined]
              @ fst (input_set_then conv s dev name inputList currentInput),
            snd (input_set_then conv s dev name inputList currentInput))"
  using assms by (simp add: input_set_def sendRequest_def Let_def split: prod.split)

lemma not_success_both:
  assumes "status_result inputList = Some (JStr ''SUCCESS'')"
    and "status_result currentInput = Some (JStr ''SUCCESS'')"
  shows "not_success inputList currentInput = Some False"
  using assms by (simp add: not_success_def)

lemma resolve_name_priority:
  assumes "item \<in> set items"
    and "map_option lower (internal_name item) = Some (lower name)"
  shows "\<exists>n. resolve_name_spec name items = Some n \<and> lower n = lower name"
proof -
  from assms have "find (\<lambda>item. map_option lower (internal_name item) = Some (lower name)) items \<noteq> None"
    by (auto simp: find_None_iff)
  then obtain hit where hit: "find (\<lambda>item. map_option lower (internal_name item) = Some (lower name)) items = Some hit"
    by auto
  then have "map_option lower (internal_name hit) = Some (lower name)"
    by (auto simp: find_Some_iff)
  with hit show ?thesis by (auto simp: resolve_name_spec_def)
qed

text \<open>
  Claim C5. Let both reads of \<open>input.set(name)\<close> succeed, the list being an array of
  items that each have a string \<open>NAME\<close> and a string \<open>VALUE.NAME\<close>. Then
  \<open>findInputByName\<close> returns what the specification's resolution gives: the internal
  name, as stored, of the first item whose internal name equals \<open>name\<close> up to case, else
  of the first item whose display name does, else \<open>null\<close>. An item matched by internal
  name anywhere in the list makes the result an internal-name match. When the resolved
  name is not empty, the third request is the \<open>PUT\<close> whose \<open>VALUE\<close> is that internal
  name and whose \<open>HASHVAL\<close> is the one of the current input just read; when nothing
  matches, or the name found is the empty string, no third request is sent and the
  promise is rejected with the not-found message.
\<close>

theorem input_set_sends_internal_name:
  assumes list: "dev (request_options GET (host s @ ''/menu_native/dynamic/audio_settings/input'') (authKey s) JUndefined) = Fulfilled inputList"
    and current: "dev (request_options GET (host s @ ''/menu_native/dynamic/audio_settings/input/current_input'') (authKey s) JUndefined) = Fulfilled currentInput"
    and items: "member_of inputList ''ITEMS'' = Some (JArr items)"
    and wf: "\<forall>item \<in> set items. internal_name item \<noteq> None \<and> display_name item \<noteq> None"
    and ok: "status_result inputList = Some (JStr ''SUCCESS'')"
            "status_result currentInput = Some (JStr ''SUCCESS'')"
    and hash: "member_of currentInput ''ITEMS'' \<bind> first_element \<bind> (\<lambda>item. member_of item ''HASHVAL'') = Some h"
  shows "findInputByName conv name inputList =
           Some (case resolve_name_spec name items of Some n \<Rightarrow> JStr n | None \<Rightarrow> JNull)
       \<and> (\<forall>item \<in> set items. map_option lower (internal_name item) = Some (lower name) \<longrightarrow>
            (\<exists>n. resolve_name_spec name items = Some n \<and> lower n = lower name))
       \<and> (\<forall>n. resolve_name_spec name items = Some n \<longrightarrow> n \<noteq> [] \<longrightarrow>
            fst (input_set conv s dev list_first name) =
              [request_options GET (host s @ ''/menu_native/dynamic/audio_settings/input'') (authKey s) JUndefined,
               request_options GET (host s @ ''/menu_native/dynamic/audio_settings/input/current_input'') (authKey s) JUndefined,
               request_options PUT (host s @ ''/menu_native/dynamic/audio_settings/input/current_input'') (authKey s)
                 (JObj [(''REQUEST'', JStr ''MODIFY''), (''VALUE'', JStr n), (''HASHVAL'', h)])])
       \<and> (resolve_name_spec name items = None \<or> resolve_name_spec name items = Some [] \<longrightarrow>
            input_set conv s dev list_first name =
              ([request_options GET (host s @ ''/menu_native/dynamic/audio_settings/input'') (authKey s) JUndefined,
                request_options GET (host s @ ''/menu_native/dynamic/audio_settings/input/current_input'') (authKey s) JUndefined],
               Rejected (Val (JStr (''Input: '' @ name @ '' not found'')))))"
proof -
  note found = findInputByName_well_formed [OF items wf, of conv name]
  have 3: "fst (input_set conv s dev list_first name) =
              [request_options GET (host s @ ''/menu_native/dynamic/audio_settings/input'') (authKey s) JUndefined,
               request_options GET (host s @ ''/menu_native/dynamic/audio_settings/input/current_input'') (authKey s) JUndefined,
               request_options PUT (host s @ ''/menu_native/dynamic/audio_settings/input/current_input'') (authKey s)
                 (JObj [(''REQUEST'', JStr ''MODIFY''), (''VALUE'', JStr n), (''HASHVAL'', h)])]"
    if "resolve_name_spec name items = Some n" "n \<noteq> []" for n
    using that found hash not_success_both [OF ok]
    by (simp add: input_set_both_fulfilled [OF list current] input_set_then_def sendRequest_def Let_def
             split: prod.split)
  have 4: "input_set conv s dev list_first name =
              ([request_options GET (host s @ ''/menu_native/dynamic/audio_settings/input'') (authKey s) JUndefined,
                request_options GET (host s @ ''/menu_native/dynamic/audio_settings/input/current_input'') (authKey s) JUndefined],
               Rejected (Val (JStr (''Input: '' @ name @ '' not found''))))"
    if "resolve_name_spec name items = None \<or> resolve_name_spec name items = Some []"
    using that found not_success_both [OF ok]
    by (auto simp: input_set_both_fulfilled [OF list current] input_set_then_def)
  show ?thesis
    using found 3 4 resolve_name_priority [of _ items name] by blast
qed

text \<open>
  Four calls on the session \<open>tv\<close>. \<open>set('HDMI-1')\<close> against the item with internal
  name \<open>hdmi1\<close> and display name \<open>HDMI-1\<close> sends \<open>hdmi1\<close>, and so does
  \<open>set('hDmi-1')\<close>, which differs from the display name in case. \<open>set('aux')\<close> against
  a list whose first item has the display name \<open>Aux\<close> and whose second has the internal
  name \<open>AUX\<close> sends \<open>AUX\<close>: the internal name wins over the earlier display name, and
  what is sent is the stored name, not the caller's spelling. The fourth call asks for a
  name that starts with U+00C9 where the stored internal name starts with U+00E9, and
  sends the stored one.
\<close>

theorem input_set_sends_internal_name_witness:
  "fst (input_set no_coercion tv (input_device inputs_doc) True ''HDMI-1'') =
     [request_options GET (host tv @ ''/menu_native/dynamic/audio_settings/input'') (authKey tv) JUndefined,
      request_options GET (host tv @ ''/menu_native/dynamic/audio_settings/input/current_input'') (authKey tv) JUndefined,
      request_options PUT (host tv @ ''/menu_native/dynamic/audio_settings/input/current_input'') (authKey tv)
        (JObj [(''REQUEST'', JStr ''MODIFY''), (''VALUE'', JStr ''hdmi1''), (''HASHVAL'', JNum (Finite 77))])]
   \<and> fst (input_set no_coercion tv (input_device inputs_doc) True ''hDmi-1'') =
     [request_options GET (host tv @ ''/menu_native/dynamic/audio_settings/input'') (authKey tv) JUndefined,
      request_options GET (host tv @ ''/menu_native/dynamic/audio_settings/input/current_input'') (authKey tv) JUndefined,
      request_options PUT (host tv @ ''/menu_native/dynamic/audio_settings/input/current_input'') (authKey tv)
        (JObj [(''REQUEST'', JStr ''MODIFY''), (''VALUE'', JStr ''hdmi1''), (''HASHVAL'', JNum (Finite 77))])]
   \<and> fst (input_set no_coercion tv (input_device aux_doc) True ''aux'') =
     [request_options GET (host tv @ ''/menu_native/dynamic/audio_settings/input'') (authKey tv) JUndefined,
      request_options GET (host tv @ ''/menu_native/dynamic/audio_settings/input/current_input'') (authKey tv) JUndefined,
      request_options PUT (host tv @ ''/menu_native/dynamic/audio_settings/input/current_input'') (authKey tv)
        (JObj [(''REQUEST'', JStr ''MODIFY''), (''VALUE'', JStr ''AUX''), (''HASHVAL'', JNum (Finite 77))])]
   \<and> fst (input_set no_coercion tv (input_device ecran_doc) True
            [CHR 0xC9, CHR ''c'', CHR ''r'', CHR ''a'', CHR ''n'']) =
     [request_options GET (host tv @ ''/menu_native/dynamic/audio_settings/input'') (authKey tv) JUndefined,
      request_options GET (host tv @ ''/menu_native/dynamic/audio_settings/input/current_input'') (authKey tv) JUndefined,
      request_options PUT (host tv @ ''/menu_native/dynamic/audio_settings/input/current_input'') (authKey tv)
        (JObj [(''REQUEST'', JStr ''MODIFY''),
               (''VALUE'', JStr [CHR 0xE9, CHR ''c'', CHR ''r'', CHR ''a'', CHR ''n'']),
               (''HASHVAL'', JNum (Finite 77))])]
   \<and> authKey tv = JStr ''key''"
proof -
  let ?inputs = "[JObj [(''HASHVAL'', JNum (Finite 11)), (''NAME'', JStr ''bt''),
                        (''VALUE'', JObj [(''NAME'', JStr ''Bluetooth'')])],
                  JObj [(''HASHVAL'', JNum (Finite 12)), (''NAME'', JStr ''hdmi1''),
                        (''VALUE'', JObj [(''NAME'', JStr ''HDMI-1'')])]]"
  let ?aux = "[JObj [(''NAME'', JStr ''hdmi2''), (''VALUE'', JObj [(''NAME'', JStr ''Aux'')])],
               JObj [(''NAME'', JStr ''AUX''), (''VALUE'', JObj [(''NAME'', JStr ''Line in'')])]]"
  let ?ecran = "[JObj [(''NAME'', JStr [CHR 0xE9, CHR ''c'', CHR ''r'', CHR ''a'', CHR ''n'']),
                       (''VALUE'', JObj [(''NAME'', JStr ''Screen'')])]]"
  have key: "authKey tv = JStr ''key''" by (simp add: tv_def SMARTCAST_def)
  have list: "input_device doc (request_options GET (host tv @ ''/menu_native/dynamic/audio_settings/input'') (authKey tv) JUndefined) = Fulfilled doc" for doc
    by (simp add: input_device_def by_path_def request_options_def)
  have current: "input_device doc (request_options GET (host tv @ ''/menu_native/dynamic/audio_settings/input/current_input'') (authKey tv) JUndefined) = Fulfilled current_doc" for doc
    by (simp add: input_device_def by_path_def request_options_def)
  have items: "member_of inputs_doc ''ITEMS'' = Some (JArr ?inputs)"
    "member_of aux_doc ''ITEMS'' = Some (JArr ?aux)"
    "member_of ecran_doc ''ITEMS'' = Some (JArr ?ecran)"
    by (simp_all add: inputs_doc_def aux_doc_def ecran_doc_def)
  have wf: "\<forall>item \<in> set ?inputs. internal_name item \<noteq> None \<and> display_name item \<noteq> None"
    "\<forall>item \<in> set ?aux. internal_name item \<noteq> None \<and> display_name item \<noteq> None"
    "\<forall>item \<in> set ?ecran. internal_name item \<noteq> None \<and> display_name item \<noteq> None"
    by (simp_all add: internal_name_def display_name_def)
  have ok: "status_result inputs_doc = Some (JStr ''SUCCESS'')"
    "status_result aux_doc = Some (JStr ''SUCCESS'')"
    "status_result current_doc = Some (JStr ''SUCCESS'')"
    "status_result ecran_doc = Some (JStr ''SUCCESS'')"
    by (simp_all add: status_result_def inputs_doc_def aux_doc_def current_doc_def ecran_doc_def)
  have hash: "member_of current_doc ''ITEMS'' \<bind> first_element \<bind> (\<lambda>item. member_of item ''HASHVAL'') = Some (JNum (Finite 77))"
    by (simp add: current_doc_def)
  have res: "resolve_name_spec ''HDMI-1'' ?inputs = Some ''hdmi1''"
    "resolve_name_spec ''hDmi-1'' ?inputs = Some ''hdmi1''"
    "resolve_name_spec ''aux'' ?aux = Some ''AUX''"
    "resolve_name_spec [CHR 0xC9, CHR ''c'', CHR ''r'', CHR ''a'', CHR ''n''] ?ecran =
       Some [CHR 0xE9, CHR ''c'', CHR ''r'', CHR ''a'', CHR ''n'']"
    by (simp_all add: resolve_name_spec_def internal_name_def display_name_def lower_simps)
  show ?thesis
    using input_set_sends_internal_name
            [OF list current items(1) wf(1) ok(1) ok(3) hash, of no_coercion "''HDMI-1''" True]
          input_set_sends_internal_name
            [OF list current items(1) wf(1) ok(1) ok(3) hash, of no_coercion "''hDmi-1''" True]
          input_set_sends_internal_name
            [OF list current items(2) wf(2) ok(2) ok(3) hash, of no_coercion "''aux''" True]
          input_set_sends_internal_name
            [OF list current items(3) wf(3) ok(4) ok(3) hash, of no_coercion
                "[CHR 0xC9, CHR ''c'', CHR ''r'', CHR ''a'', CHR ''n'']" True]
          res key
    by simp
qed

text \<open>
  Claim C4, at the input where the code departs from it. The list read is answered with a
  failure that has no \<open>ITEMS\<close> (here \<open>REQUIRES_PAIRING\<close>) and the current-input read
  succeeds. \<open>findInputByName\<close> runs before the two results are compared and throws on
  \<open>list.ITEMS.length\<close>, so the promise is rejected with the TypeError and not with the
  object holding both responses. No third request is sent.
\<close>

theorem input_set_throws_on_failed_list_without_items:
  "input_set conv s
     (by_path s [((GET, ''/menu_native/dynamic/audio_settings/input''), requires_pairing_doc),
                 ((GET, ''/menu_native/dynamic/audio_settings/input/current_input''), current_doc)])
     list_first name =
   ([request_options GET (host s @ ''/menu_native/dynamic/audio_settings/input'') (authKey s) JUndefined,
     request_options GET (host s @ ''/menu_native/dynamic/audio_settings/input/current_input'') (authKey s) JUndefined],
    Rejected TypeError)"
  by (simp add: input_set_def input_set_then_def findInputByName_def sendRequest_def request_options_def
        by_path_def requires_pairing_doc_def Let_def)

text \<open>When the lookup does not throw, a result other than \<open>SUCCESS\<close> gives the
  object with both responses; and whenever the two results are not both \<open>SUCCESS\<close>,
  nothing is sent after the two reads.\<close>

lemma input_set_then_structured_error:
  assumes "findInputByName conv name inputList = Some n"
    and "not_success inputList currentInput = Some True"
  shows "input_set_then conv s dev name inputList currentInput =
           ([], Rejected (Val (JObj [(''list'', inputList), (''current'', currentInput)])))"
  using assms by (simp add: input_set_then_def)

lemma input_set_then_no_modify_unless_success:
  assumes "not_success inputList currentInput \<noteq> Some False"
  shows "fst (input_set_then conv s dev name inputList currentInput) = []"
  using assms by (auto simp: input_set_then_def split: option.splits bool.splits)

end
